theory Spec2Isabelle
  imports Complex_Main
begin

section \<open>Data model (the shared type declarations)\<close>

text \<open>
  The TypeScript type \<open>number\<close> is modelled by \<open>real\<close>. Every numeric literal of the
  page is a short decimal, and the only operations the page applies to numbers are
  comparisons with such literals, so nothing here depends on rounding. A real is
  never NaN; the numbers the page holds all come from its own literals.
\<close>

type_synonym number = real

datatype lender_type = Bank | Nbfc | Cooperative | Microfinance

datatype eligibility_status = Eligible | PartiallyEligible | NotEligible

datatype loan_status = Pending | Approved | Rejected | Disbursed

text \<open>
  \<open>interface LoanApplication\<close>. The fields \<open>id\<close>, \<open>term\<close>, \<open>interestRate\<close> and
  \<open>status\<close> carry a prefix or suffix: \<open>id\<close> and \<open>term\<close> are taken in Isabelle, the
  other two also name fields of \<open>Lender\<close>.
\<close>

record LoanApplication =
  app_id :: string
  borrowerId :: string
  borrowerName :: string
  amount :: number
  purpose :: string
  term_months :: number
  app_interestRate :: number
  app_status :: loan_status
  creditScore :: number
  monthlyIncome :: number
  employmentType :: string
  appliedDate :: string
  documents :: "string list"

text \<open>The anonymous object type of \<open>Lender.eligibilityCriteria\<close>.\<close>

record EligibilityCriteria =
  minCreditScore :: number
  minMonthlyIncome :: number
  maxAge :: number
  employmentTypes :: "string list"

text \<open>
  \<open>interface Lender\<close>. The optional \<open>logo\<close> is an option; the logos of the page are
  emoji, kept as their UTF-8 bytes.
\<close>

record Lender =
  lender_id :: string
  lender_name :: string
  lender_type :: lender_type
  logo :: "string option"
  interestRate :: number
  minAmount :: number
  maxAmount :: number
  maxTerm :: number
  processingFee :: number
  eligibilityCriteria :: EligibilityCriteria
  features :: "string list"
  rating :: number
  reviewCount :: number
  processingTime :: string

record LoanRecommendation =
  lender :: Lender
  matchScore :: number
  eligibilityStatus :: eligibility_status
  reasons :: "string list"
  estimatedEMI :: number
  totalInterest :: number

section \<open>The recommendations page\<close>

text \<open>
  The component state of \<open>LoanRecommendations\<close>: the three \<open>useState\<close> cells, and the
  effects the component has on its surroundings (calls of \<open>navigate\<close>, toasts).
\<close>

datatype selected_filter = All | EligibleFilter | TopRated

datatype toast = ToastError string | ToastSuccess string

record page_state =
  recommendations :: "LoanRecommendation list"
  loading :: bool
  selectedFilter :: selected_filter
  navigated :: "string list"
  toasts :: "toast list"

text \<open>The initial values given to \<open>useState\<close>.\<close>

definition initial_state :: page_state where
  "initial_state =
     \<lparr>recommendations = [], loading = True, selectedFilter = All,
      navigated = [], toasts = []\<rparr>"

text \<open>The array literal \<open>mockRecommendations\<close> of \<open>fetchRecommendations\<close>.\<close>

definition mockRecommendations :: "LoanRecommendation list" where
  "mockRecommendations =
    [\<lparr>lender =
        \<lparr>lender_id = ''1'', lender_name = ''State Bank of India'', lender_type = Bank,
         logo = Some [CHR 0xF0, CHR 0x9F, CHR 0x8F, CHR 0xA6],
         interestRate = 8.5, minAmount = 50000, maxAmount = 1000000, maxTerm = 60,
         processingFee = 1.5,
         eligibilityCriteria =
           \<lparr>minCreditScore = 650, minMonthlyIncome = 25000, maxAge = 65,
            employmentTypes = [''salaried'', ''self-employed'']\<rparr>,
         features = [''Flexible EMI'', ''Quick Approval'', ''No Prepayment Charges''],
         rating = 4.2, reviewCount = 1250, processingTime = ''3-5 days''\<rparr>,
      matchScore = 92, eligibilityStatus = Eligible,
      reasons = [''Credit score matches requirement'', ''Income sufficient'',
                 ''Loan amount within limit''],
      estimatedEMI = 12458, totalInterest = 148960\<rparr>,
     \<lparr>lender =
        \<lparr>lender_id = ''2'', lender_name = ''HDFC Bank'', lender_type = Bank,
         logo = Some [CHR 0xF0, CHR 0x9F, CHR 0x8F, CHR 0x9B, CHR 0xEF, CHR 0xB8, CHR 0x8F],
         interestRate = 9.2, minAmount = 100000, maxAmount = 2000000, maxTerm = 72,
         processingFee = 2.0,
         eligibilityCriteria =
           \<lparr>minCreditScore = 700, minMonthlyIncome = 30000, maxAge = 60,
            employmentTypes = [''salaried'']\<rparr>,
         features = [''Digital Process'', ''Instant Approval'', ''Doorstep Service''],
         rating = 4.5, reviewCount = 2100, processingTime = ''1-2 days''\<rparr>,
      matchScore = 85, eligibilityStatus = Eligible,
      reasons = [''High credit score advantage'', ''Premium banking customer'',
                 ''Quick processing''],
      estimatedEMI = 13250, totalInterest = 165000\<rparr>,
     \<lparr>lender =
        \<lparr>lender_id = ''3'', lender_name = ''Bajaj Finserv'', lender_type = Nbfc,
         logo = Some [CHR 0xF0, CHR 0x9F, CHR 0x92, CHR 0xB0],
         interestRate = 11.5, minAmount = 25000, maxAmount = 500000, maxTerm = 48,
         processingFee = 2.5,
         eligibilityCriteria =
           \<lparr>minCreditScore = 600, minMonthlyIncome = 20000, maxAge = 70,
            employmentTypes = [''salaried'', ''self-employed'', ''business'']\<rparr>,
         features = [''Instant Approval'', ''Minimal Documentation'', ''Flexible Tenure''],
         rating = 4.0, reviewCount = 890, processingTime = ''2-4 hours''\<rparr>,
      matchScore = 78, eligibilityStatus = Eligible,
      reasons = [''Fast processing'', ''Low documentation'', ''Flexible criteria''],
      estimatedEMI = 15123, totalInterest = 225840\<rparr>,
     \<lparr>lender =
        \<lparr>lender_id = ''4'', lender_name = ''Mahindra Finance'', lender_type = Nbfc,
         logo = Some [CHR 0xF0, CHR 0x9F, CHR 0x9A, CHR 0x9C],
         interestRate = 12.8, minAmount = 20000, maxAmount = 300000, maxTerm = 36,
         processingFee = 3.0,
         eligibilityCriteria =
           \<lparr>minCreditScore = 550, minMonthlyIncome = 15000, maxAge = 65,
            employmentTypes = [''salaried'', ''self-employed'', ''agriculture'']\<rparr>,
         features = [''Rural Focus'', ''Agriculture Loans'', ''Easy Approval''],
         rating = 3.8, reviewCount = 450, processingTime = ''1-3 days''\<rparr>,
      matchScore = 65, eligibilityStatus = PartiallyEligible,
      reasons = [''Higher interest rate'', ''Suitable for rural areas'',
                 ''Lower amount limit''],
      estimatedEMI = 16890, totalInterest = 208040\<rparr>]"

text \<open>
  The \<open>try\<close> block of \<open>fetchRecommendations\<close>: \<open>setLoading(true)\<close>, the simulated
  delay (time is not modelled), the array literal, \<open>setRecommendations\<close>. The result
  is a sum so that the \<open>catch\<close> clause has something to handle; no statement of the
  block throws, so the block always ends in \<open>Inr\<close>.
\<close>

definition fetch_try :: "page_state \<Rightarrow> string + page_state" where
  "fetch_try s = Inr ((s\<lparr>loading := True\<rparr>)\<lparr>recommendations := mockRecommendations\<rparr>)"

text \<open>
  \<open>fetchRecommendations\<close> with its \<open>catch\<close> (an error toast) and its \<open>finally\<close>
  (\<open>setLoading(false)\<close>). The function closes over the loan application and never
  reads it, so the application is not among its arguments.
\<close>

definition fetchRecommendations :: "page_state \<Rightarrow> page_state" where
  "fetchRecommendations s =
     (case fetch_try s of
        Inr s' \<Rightarrow> s'\<lparr>loading := False\<rparr>
      | Inl e \<Rightarrow>
          (s\<lparr>loading := True,
             toasts := toasts s @ [ToastError ''Failed to load loan recommendations'']\<rparr>)
            \<lparr>loading := False\<rparr>)"

text \<open>
  The body of the \<open>useEffect\<close> hook: without a loan application in the navigation
  state it navigates back to the dashboard and returns early; otherwise it fetches.
\<close>

definition useEffect_body :: "LoanApplication option \<Rightarrow> page_state \<Rightarrow> page_state" where
  "useEffect_body loanApplication s =
     (case loanApplication of
        None \<Rightarrow> s\<lparr>navigated := navigated s @ [''/borrowers/dashboard'']\<rparr>
      | Some a \<Rightarrow> fetchRecommendations s)"

text \<open>
  The callback of \<open>recommendations.filter\<close>: a \<open>switch\<close> on the selected filter whose
  \<open>default\<close> branch serves \<open>'all'\<close>.
\<close>

fun filter_keeps :: "selected_filter \<Rightarrow> LoanRecommendation \<Rightarrow> bool" where
  "filter_keeps EligibleFilter rec = (eligibilityStatus rec = Eligible)"
| "filter_keeps TopRated rec = (rating (lender rec) \<ge> 4.0)"
| "filter_keeps All rec = True"

definition filteredRecommendations :: "page_state \<Rightarrow> LoanRecommendation list" where
  "filteredRecommendations s = filter (filter_keeps (selectedFilter s)) (recommendations s)"

text \<open>\<open>setSelectedFilter\<close>, called by the three filter buttons.\<close>

definition setSelectedFilter :: "selected_filter \<Rightarrow> page_state \<Rightarrow> page_state" where
  "setSelectedFilter f s = s\<lparr>selectedFilter := f\<rparr>"

text \<open>\<open>handleApplyToLender\<close>: a success toast, whatever the lender.\<close>

definition handleApplyToLender :: "string \<Rightarrow> page_state \<Rightarrow> page_state" where
  "handleApplyToLender lenderId s =
     s\<lparr>toasts := toasts s @ [ToastSuccess ''Redirecting to lender application...'']\<rparr>"

text \<open>The \<open>disabled\<close> attribute of the apply button of a recommendation card.\<close>

definition apply_disabled :: "LoanRecommendation \<Rightarrow> bool" where
  "apply_disabled recommendation = (eligibilityStatus recommendation = NotEligible)"

text \<open>
  A click on the apply button: a disabled button delivers no click, an enabled one
  runs its \<open>onClick\<close> handler.
\<close>

definition click_apply :: "LoanRecommendation \<Rightarrow> page_state \<Rightarrow> page_state" where
  "click_apply recommendation s =
     (if apply_disabled recommendation then s
      else handleApplyToLender (lender_id (lender recommendation)) s)"

text \<open>
  What the component renders, as far as the list is concerned: the spinner while
  loading; otherwise one card per filtered recommendation (its key, its reasons, the
  state of its apply button) and the no-results block when the filtered list is empty.
\<close>

record card =
  card_key :: string
  card_reasons :: "string list"
  card_apply_disabled :: bool

datatype view = Spinner | Page "card list" bool

definition render_card :: "LoanRecommendation \<Rightarrow> card" where
  "render_card recommendation =
     \<lparr>card_key = lender_id (lender recommendation),
      card_reasons = reasons recommendation,
      card_apply_disabled = apply_disabled recommendation\<rparr>"

definition render :: "page_state \<Rightarrow> view" where
  "render s =
     (if loading s then Spinner
      else Page (map render_card (filteredRecommendations s))
                (length (filteredRecommendations s) = 0))"

section \<open>The spec's examples and predicates\<close>

text \<open>
  The definitions of this section are not code of the page. They write down inputs and
  predicates of the specification, named \<open>spec_\<close> or \<open>example\<close>, to be compared with
  what the page produces.
\<close>

text \<open>The recommendations a request gets: the effect run on the freshly mounted page.\<close>

definition recommendations_for :: "LoanApplication \<Rightarrow> LoanRecommendation list" where
  "recommendations_for a = recommendations (useEffect_body (Some a) initial_state)"

text \<open>The recommendations made for the offers that satisfy a description.\<close>

definition recommendations_for_offer ::
  "(Lender \<Rightarrow> bool) \<Rightarrow> LoanRecommendation list \<Rightarrow> LoanRecommendation list" where
  "recommendations_for_offer offer recs = filter (offer \<circ> lender) recs"

text \<open>The verdict of a recommendation together with its reasons.\<close>

definition verdict_and_reasons :: "LoanRecommendation \<Rightarrow> eligibility_status \<times> string list" where
  "verdict_and_reasons r = (eligibilityStatus r, reasons r)"

text \<open>
  The profile of Example 1 (credit score 720, income 30000, salaried, amount 500000,
  term 36) and the one of Example 2 (credit score 600, income 18000, business, amount
  200000, term 24). The fields the examples leave open are filled in; an application
  has no age field, so the age 35 of both examples is passed separately where needed.
\<close>

definition example1_application :: LoanApplication where
  "example1_application =
     \<lparr>app_id = ''A1'', borrowerId = ''B1'', borrowerName = ''Borrower One'',
      amount = 500000, purpose = ''Business expansion'', term_months = 36,
      app_interestRate = 0, app_status = Pending, creditScore = 720,
      monthlyIncome = 30000, employmentType = ''salaried'',
      appliedDate = ''2024-01-15'', documents = []\<rparr>"

definition example2_application :: LoanApplication where
  "example2_application =
     \<lparr>app_id = ''A2'', borrowerId = ''B2'', borrowerName = ''Borrower Two'',
      amount = 200000, purpose = ''Working capital'', term_months = 24,
      app_interestRate = 0, app_status = Pending, creditScore = 600,
      monthlyIncome = 18000, employmentType = ''business'',
      appliedDate = ''2024-01-16'', documents = []\<rparr>"

text \<open>A third request, small enough for every fixed EMI to repay it in 36 months.\<close>

definition example3_application :: LoanApplication where
  "example3_application =
     \<lparr>app_id = ''A3'', borrowerId = ''B3'', borrowerName = ''Borrower Three'',
      amount = 300000, purpose = ''Equipment'', term_months = 36,
      app_interestRate = 0, app_status = Pending, creditScore = 700,
      monthlyIncome = 40000, employmentType = ''salaried'',
      appliedDate = ''2024-01-17'', documents = []\<rparr>"

text \<open>The offers of Example 1 and Example 2, as the examples describe them.\<close>

definition example1_offer :: "Lender \<Rightarrow> bool" where
  "example1_offer l =
     (minCreditScore (eligibilityCriteria l) = 650
      \<and> minMonthlyIncome (eligibilityCriteria l) = 25000
      \<and> maxAge (eligibilityCriteria l) = 65
      \<and> interestRate l = 8.5
      \<and> minAmount l = 50000 \<and> maxAmount l = 1000000 \<and> maxTerm l = 60)"

definition example2_offer :: "Lender \<Rightarrow> bool" where
  "example2_offer l =
     (minCreditScore (eligibilityCriteria l) = 700
      \<and> minMonthlyIncome (eligibilityCriteria l) = 30000
      \<and> maxAge (eligibilityCriteria l) = 60
      \<and> employmentTypes (eligibilityCriteria l) = [''salaried''])"

text \<open>
  The four eligibility predicates of the spec's classifier, in its order (credit score,
  income, age, employment type), the number of them that fail, and its range condition
  on amount and term.
\<close>

definition spec_predicates :: "LoanApplication \<Rightarrow> number \<Rightarrow> Lender \<Rightarrow> bool list" where
  "spec_predicates profile age offer =
     [creditScore profile \<ge> minCreditScore (eligibilityCriteria offer),
      monthlyIncome profile \<ge> minMonthlyIncome (eligibilityCriteria offer),
      age \<le> maxAge (eligibilityCriteria offer),
      employmentType profile \<in> set (employmentTypes (eligibilityCriteria offer))]"

definition spec_predicates_failed :: "LoanApplication \<Rightarrow> number \<Rightarrow> Lender \<Rightarrow> nat" where
  "spec_predicates_failed profile age offer =
     length (filter Not (spec_predicates profile age offer))"

definition spec_within_range :: "LoanApplication \<Rightarrow> Lender \<Rightarrow> bool" where
  "spec_within_range profile offer =
     (minAmount offer \<le> amount profile \<and> amount profile \<le> maxAmount offer
      \<and> term_months profile \<le> maxTerm offer)"

text \<open>
  The spec's repayment identity, total interest = EMI * term - amount within 1e-6, and
  its bound EMI * term >= amount, strict for a nonzero rate.
\<close>

definition spec_interest_identity :: "LoanApplication \<Rightarrow> LoanRecommendation \<Rightarrow> bool" where
  "spec_interest_identity a r =
     (\<bar>totalInterest r - (estimatedEMI r * term_months a - amount a)\<bar> \<le> 1 / 10 ^ 6)"

definition spec_repayment_covers :: "LoanApplication \<Rightarrow> LoanRecommendation \<Rightarrow> bool" where
  "spec_repayment_covers a r =
     (if interestRate (lender r) = 0 then amount a \<le> estimatedEMI r * term_months a
      else amount a < estimatedEMI r * term_months a)"

text \<open>
  "Approximately", read generously: within ten percent of the stated figure. The
  outcome Example 1 states for its offer.
\<close>

definition spec_approximately :: "number \<Rightarrow> number \<Rightarrow> bool" where
  "spec_approximately x stated = (\<bar>x - stated\<bar> * 10 \<le> \<bar>stated\<bar>)"

definition spec_example1_outcome :: "LoanRecommendation \<Rightarrow> bool" where
  "spec_example1_outcome r =
     (eligibilityStatus r = Eligible
      \<and> spec_approximately (estimatedEMI r) 15776
      \<and> spec_approximately (totalInterest r) 67936)"

section \<open>What the fetch produces\<close>

lemma fetchRecommendations_eq:
  "fetchRecommendations s = s\<lparr>loading := False, recommendations := mockRecommendations\<rparr>"
  by (simp add: fetchRecommendations_def fetch_try_def)

lemma recommendations_fetch [simp]:
  "recommendations (fetchRecommendations s) = mockRecommendations"
  by (simp add: fetchRecommendations_eq)

lemma recommendations_useEffect_Some [simp]:
  "recommendations (useEffect_body (Some a) s) = mockRecommendations"
  by (simp add: useEffect_body_def)

lemma length_mockRecommendations [simp]: "length mockRecommendations = 4"
  by (simp add: mockRecommendations_def)

text \<open>
  C9. The recommendation list does not depend on the loan application: any two
  applications, from any two states of the page, get the same list, with lender ids
  1 to 4 and fixed match scores, verdicts, EMIs and total interests.
\<close>

theorem recommendations_independent_of_application:
  "recommendations (useEffect_body (Some a1) s1) = recommendations (useEffect_body (Some a2) s2)
   \<and> map (\<lambda>r. lender_id (lender r)) (recommendations (useEffect_body (Some a1) s1))
       = [''1'', ''2'', ''3'', ''4'']
   \<and> map matchScore (recommendations (useEffect_body (Some a1) s1)) = [92, 85, 78, 65]
   \<and> map eligibilityStatus (recommendations (useEffect_body (Some a1) s1))
       = [Eligible, Eligible, Eligible, PartiallyEligible]
   \<and> map estimatedEMI (recommendations (useEffect_body (Some a1) s1))
       = [12458, 13250, 15123, 16890]
   \<and> map totalInterest (recommendations (useEffect_body (Some a1) s1))
       = [148960, 165000, 225840, 208040]"
  by (simp add: mockRecommendations_def)

lemma toasts_useEffect_Some [simp]: "toasts (useEffect_body (Some a) s) = toasts s"
  by (simp add: useEffect_body_def fetchRecommendations_eq)

lemma recommendations_for_eq [simp]: "recommendations_for a = mockRecommendations"
  by (simp add: recommendations_for_def)

lemma filtered_setSelectedFilter:
  "filteredRecommendations (setSelectedFilter f s) = filter (filter_keeps f) (recommendations s)"
  by (simp add: filteredRecommendations_def setSelectedFilter_def)

lemma recommendations_setSelectedFilter [simp]:
  "recommendations (setSelectedFilter f s) = recommendations s"
  by (simp add: setSelectedFilter_def)

section \<open>Order of the list\<close>

lemma mockRecommendations_sorted:
  "sorted_wrt (\<lambda>r r'. matchScore r' \<le> matchScore r) mockRecommendations"
  by (simp add: mockRecommendations_def)

text \<open>
  C1. The list set for a loan request has non-increasing match scores, and so has the
  list shown under each of the three filters: every entry's score is at least the
  score of the entry after it.
\<close>

theorem matchScore_non_increasing:
  "sorted_wrt (\<lambda>r r'. matchScore r' \<le> matchScore r)
     (recommendations (useEffect_body (Some a) s))
   \<and> sorted_wrt (\<lambda>r r'. matchScore r' \<le> matchScore r)
       (filteredRecommendations (setSelectedFilter f (useEffect_body (Some a) s)))
   \<and> (\<forall>i. Suc i < length (filteredRecommendations (setSelectedFilter f (useEffect_body (Some a) s)))
        \<longrightarrow> matchScore (filteredRecommendations (setSelectedFilter f (useEffect_body (Some a) s)) ! Suc i)
              \<le> matchScore (filteredRecommendations (setSelectedFilter f (useEffect_body (Some a) s)) ! i))"
proof -
  let ?shown = "filteredRecommendations (setSelectedFilter f (useEffect_body (Some a) s))"
  have whole: "sorted_wrt (\<lambda>r r'. matchScore r' \<le> matchScore r)
                 (recommendations (useEffect_body (Some a) s))"
    using mockRecommendations_sorted by simp
  have shown: "sorted_wrt (\<lambda>r r'. matchScore r' \<le> matchScore r) ?shown"
    unfolding filtered_setSelectedFilter using whole by (rule sorted_wrt_filter)
  have "matchScore (?shown ! Suc i) \<le> matchScore (?shown ! i)" if "Suc i < length ?shown" for i
    using sorted_wrt_nth_less [OF shown, of i "Suc i"] that by simp
  with whole shown show ?thesis by blast
qed

theorem matchScore_non_increasing_witness:
  "length (filteredRecommendations (setSelectedFilter TopRated
             (useEffect_body (Some example1_application) initial_state))) = 3
   \<and> matchScore (filteredRecommendations (setSelectedFilter TopRated
                    (useEffect_body (Some example1_application) initial_state)) ! Suc 0)
       \<le> matchScore (filteredRecommendations (setSelectedFilter TopRated
                    (useEffect_body (Some example1_application) initial_state)) ! 0)"
proof -
  have len: "length (filteredRecommendations (setSelectedFilter TopRated
               (useEffect_body (Some example1_application) initial_state))) = 3"
    by (simp add: filtered_setSelectedFilter mockRecommendations_def)
  then show ?thesis
    using matchScore_non_increasing [of example1_application initial_state TopRated] by simp
qed

section \<open>EMI and total interest\<close>

lemma no_common_term:
  fixes n A :: real
  assumes "\<bar>148960 - (12458 * n - A)\<bar> \<le> 1 / 10 ^ 6"
    and "\<bar>165000 - (13250 * n - A)\<bar> \<le> 1 / 10 ^ 6"
    and "\<bar>225840 - (15123 * n - A)\<bar> \<le> 1 / 10 ^ 6"
  shows False
proof -
  have eps: "(1::real) / 10 ^ 6 = 1 / 1000000" by simp
  have "792 * n \<le> 16040 + 2 / 1000000"
    using assms(1,2) unfolding eps by linarith
  moreover have "76880 - 2 / 1000000 \<le> 2665 * n"
    using assms(1,3) unfolding eps by linarith
  ultimately show False by linarith
qed

text \<open>
  C3, as the page has it. The EMI and the total interest of a recommendation are
  fixed by its lender, whatever amount and term are requested: 12458 and 148960 for
  lender 1, 13250 and 165000 for lender 2, 15123 and 225840 for lender 3, 16890 and
  208040 for lender 4, the same for any two loan applications. So for every loan
  application each recommendation has a positive EMI and a non-negative total
  interest. The EMI times the term exceeds the amount for all of them when the term
  is positive and the amount is below 12458 times the term. For no amount and term
  does total interest = EMI * term - amount hold, within 1e-6, for all of them at once.
\<close>

theorem fixed_emi_and_interest:
  "map (\<lambda>r. (lender_id (lender r), estimatedEMI r, totalInterest r))
       (recommendations (useEffect_body (Some a) s))
     = [(''1'', 12458, 148960), (''2'', 13250, 165000),
        (''3'', 15123, 225840), (''4'', 16890, 208040)]
   \<and> map (\<lambda>r. (lender_id (lender r), estimatedEMI r, totalInterest r))
         (recommendations (useEffect_body (Some a) s))
       = map (\<lambda>r. (lender_id (lender r), estimatedEMI r, totalInterest r))
           (recommendations (useEffect_body (Some a') s'))
   \<and> (\<forall>r \<in> set (recommendations (useEffect_body (Some a) s)).
      0 \<le> totalInterest r \<and> 0 < estimatedEMI r)
   \<and> (0 < term_months a \<and> amount a < 12458 * term_months a \<longrightarrow>
        (\<forall>r \<in> set (recommendations (useEffect_body (Some a) s)). spec_repayment_covers a r))
   \<and> \<not> (\<forall>r \<in> set (recommendations (useEffect_body (Some a) s)). spec_interest_identity a r)"
proof -
  have signs: "\<forall>r \<in> set mockRecommendations. 0 \<le> totalInterest r \<and> 0 < estimatedEMI r"
    by (simp add: mockRecommendations_def)
  have covers: "\<forall>r \<in> set mockRecommendations. spec_repayment_covers a r"
    if pos: "0 < term_months a" and small: "amount a < 12458 * term_months a"
  proof -
    have "amount a < e * term_months a" if "12458 \<le> e" for e :: real
    proof -
      have "12458 * term_months a \<le> e * term_months a"
        using that pos by (simp add: mult_right_mono)
      with small show ?thesis by simp
    qed
    then show ?thesis
      by (simp add: mockRecommendations_def spec_repayment_covers_def)
  qed
  have never: "\<not> (\<forall>r \<in> set mockRecommendations. spec_interest_identity a r)"
  proof
    assume "\<forall>r \<in> set mockRecommendations. spec_interest_identity a r"
    then have "\<bar>148960 - (12458 * term_months a - amount a)\<bar> \<le> 1 / 10 ^ 6"
      and "\<bar>165000 - (13250 * term_months a - amount a)\<bar> \<le> 1 / 10 ^ 6"
      and "\<bar>225840 - (15123 * term_months a - amount a)\<bar> \<le> 1 / 10 ^ 6"
      by (simp_all add: mockRecommendations_def spec_interest_identity_def)
    then show False by (rule no_common_term)
  qed
  have fixed: "map (\<lambda>r. (lender_id (lender r), estimatedEMI r, totalInterest r))
                  mockRecommendations
                = [(''1'', 12458, 148960), (''2'', 13250, 165000),
                   (''3'', 15123, 225840), (''4'', 16890, 208040)]"
    by (simp add: mockRecommendations_def)
  from fixed signs covers never show ?thesis by simp
qed

theorem fixed_emi_and_interest_witness:
  "(0::real) < term_months example3_application
   \<and> amount example3_application < 12458 * term_months example3_application
   \<and> list_all (spec_repayment_covers example3_application)
        (recommendations (useEffect_body (Some example3_application) initial_state))
   \<and> list_all (\<lambda>r. 0 \<le> totalInterest r)
        (recommendations (useEffect_body (Some example3_application) initial_state))
   \<and> map estimatedEMI (recommendations (useEffect_body (Some example3_application) initial_state))
       = map estimatedEMI (recommendations (useEffect_body (Some example1_application) initial_state))
   \<and> amount example3_application \<noteq> amount example1_application"
proof -
  have pre: "0 < term_months example3_application
             \<and> amount example3_application < 12458 * term_months example3_application"
    by (simp add: example3_application_def)
  have differ: "amount example3_application \<noteq> amount example1_application"
    by (simp add: example3_application_def example1_application_def)
  from pre differ
    fixed_emi_and_interest [of example3_application initial_state example1_application initial_state]
  show ?thesis by (simp add: list_all_iff)
qed

text \<open>
  C3 as stated fails on Example 1's request (amount 500000, term 36) and the first
  recommendation (rate 8.5): EMI * term - amount is 12458 * 36 - 500000 = -51512, the
  total interest is 148960, and the repayment 448488 is below the amount.
\<close>

theorem interest_identity_counterexample:
  "interestRate (lender (recommendations (useEffect_body (Some example1_application) initial_state) ! 0)) = 8.5
   \<and> estimatedEMI (recommendations (useEffect_body (Some example1_application) initial_state) ! 0)
         * term_months example1_application - amount example1_application = - 51512
   \<and> totalInterest (recommendations (useEffect_body (Some example1_application) initial_state) ! 0) = 148960
   \<and> \<not> spec_interest_identity example1_application
         (recommendations (useEffect_body (Some example1_application) initial_state) ! 0)
   \<and> \<not> spec_repayment_covers example1_application
         (recommendations (useEffect_body (Some example1_application) initial_state) ! 0)"
  by (simp add: example1_application_def mockRecommendations_def
      spec_interest_identity_def spec_repayment_covers_def)

section \<open>The two worked examples\<close>

lemma example1_offer_is_first:
  "recommendations_for_offer example1_offer mockRecommendations = [mockRecommendations ! 0]"
  by (simp add: recommendations_for_offer_def example1_offer_def mockRecommendations_def)

lemma example2_offer_is_second:
  "recommendations_for_offer example2_offer mockRecommendations = [mockRecommendations ! 1]"
  by (simp add: recommendations_for_offer_def example2_offer_def mockRecommendations_def)

text \<open>
  C4, as the page has it. For the profile and the offer of Example 1 there is exactly
  one recommendation; its verdict is eligible, its EMI is 12458 and its total interest
  is 148960.
\<close>

theorem example1_outcome:
  "map eligibilityStatus
     (recommendations_for_offer example1_offer (recommendations_for example1_application))
     = [Eligible]
   \<and> map estimatedEMI
       (recommendations_for_offer example1_offer (recommendations_for example1_application))
       = [12458]
   \<and> map totalInterest
       (recommendations_for_offer example1_offer (recommendations_for example1_application))
       = [148960]"
  by (simp add: example1_offer_is_first) (simp add: mockRecommendations_def)

text \<open>
  C4 as stated expects an EMI near 15776 and a total interest near 67936. The one
  recommendation for the offer of Example 1 is the first of the list, and it is not
  within ten percent of either figure.
\<close>

theorem example1_counterexample:
  "recommendations_for_offer example1_offer (recommendations_for example1_application)
     = [recommendations_for example1_application ! 0]
   \<and> \<not> spec_approximately (estimatedEMI (recommendations_for example1_application ! 0)) 15776
   \<and> \<not> spec_approximately (totalInterest (recommendations_for example1_application ! 0)) 67936
   \<and> \<not> spec_example1_outcome (recommendations_for example1_application ! 0)"
  by (simp add: example1_offer_is_first)
     (simp add: mockRecommendations_def spec_example1_outcome_def spec_approximately_def)

section \<open>Verdicts\<close>

text \<open>
  C5, as the page has it. The verdict is fixed by the lender and does not look at the
  profile: for every loan application, whatever the age and however many of the four
  predicates fail, the recommendation of lender 4 is partially eligible, every other
  one is eligible, and none is not eligible.
\<close>

theorem verdict_fixed_by_lender:
  "\<forall>r \<in> set (recommendations (useEffect_body (Some a) s)).
      eligibilityStatus r =
        (if lender_id (lender r) = ''4'' then PartiallyEligible else Eligible)
      \<and> eligibilityStatus r \<noteq> NotEligible"
  by (simp add: mockRecommendations_def)

theorem verdict_fixed_by_lender_witness:
  "list_all (\<lambda>r. eligibilityStatus r \<noteq> NotEligible)
     (recommendations (useEffect_body (Some example2_application) initial_state))
   \<and> map eligibilityStatus
       (recommendations_for_offer example2_offer
          (recommendations (useEffect_body (Some example2_application) initial_state)))
       = [Eligible]"
proof -
  have "list_all (\<lambda>r. eligibilityStatus r \<noteq> NotEligible)
          (recommendations (useEffect_body (Some example2_application) initial_state))"
    using verdict_fixed_by_lender [of example2_application initial_state]
    by (simp add: list_all_iff)
  moreover have "map eligibilityStatus
       (recommendations_for_offer example2_offer
          (recommendations (useEffect_body (Some example2_application) initial_state)))
       = [Eligible]"
    by (simp add: example2_offer_is_second) (simp add: mockRecommendations_def)
  ultimately show ?thesis by simp
qed

text \<open>
  C5 as stated fails on Example 2. Its profile fails three of the four predicates of
  its offer (credit score, income, employment type), yet the one recommendation for
  that offer, the second of the list, is eligible, and its reasons name no blocking
  factor.
\<close>

theorem example2_counterexample:
  "recommendations_for_offer example2_offer (recommendations_for example2_application)
     = [recommendations_for example2_application ! 1]
   \<and> spec_predicates example2_application 35
        (lender (recommendations_for example2_application ! 1))
       = [False, False, True, False]
   \<and> spec_predicates_failed example2_application 35
        (lender (recommendations_for example2_application ! 1)) = 3
   \<and> eligibilityStatus (recommendations_for example2_application ! 1) = Eligible
   \<and> reasons (recommendations_for example2_application ! 1)
       = [''High credit score advantage'', ''Premium banking customer'', ''Quick processing'']"
  by (simp add: example2_offer_is_second)
     (simp add: mockRecommendations_def example2_application_def
        spec_predicates_failed_def spec_predicates_def)

text \<open>
  C6. Verdicts and reasons are deterministic: the same loan application gets the same
  verdict and the same reasons for every offer, whatever the state of the page the
  fetch starts from, and fetching a second time changes nothing.
\<close>

theorem verdict_deterministic:
  "map verdict_and_reasons (recommendations (useEffect_body (Some a) s1))
     = map verdict_and_reasons (recommendations (useEffect_body (Some a) s2))
   \<and> map verdict_and_reasons
       (recommendations_for_offer offer (recommendations (useEffect_body (Some a) s1)))
     = map verdict_and_reasons
       (recommendations_for_offer offer (recommendations (useEffect_body (Some a) s2)))
   \<and> map verdict_and_reasons
       (recommendations (useEffect_body (Some a) (useEffect_body (Some a) s1)))
     = map verdict_and_reasons (recommendations (useEffect_body (Some a) s1))"
  by simp

text \<open>Every recommendation of the list carries three reasons.\<close>

lemma reasons_present:
  "map (length \<circ> reasons) (recommendations (useEffect_body (Some a) s)) = [3, 3, 3, 3]"
  by (simp add: mockRecommendations_def)

section \<open>Filters\<close>

lemma filter_keeps_cong:
  assumes "eligibilityStatus r1 = eligibilityStatus r2"
    and "rating (lender r1) = rating (lender r2)"
  shows "filter_keeps f r1 = filter_keeps f r2"
  using assms by (cases f) simp_all

lemma filter_agrees:
  assumes "map g xs = map g ys"
    and "\<And>x y. g x = g y \<Longrightarrow> P x = P y"
  shows "map g (filter P xs) = map g (filter P ys)"
  using assms(1)
proof (induction xs arbitrary: ys)
  case Nil
  then show ?case by simp
next
  case (Cons x xs)
  then obtain y ys' where ys: "ys = y # ys'" and xy: "g x = g y" and rest: "map g xs = map g ys'"
    by (cases ys) auto
  from xy have "P x = P y" by (rule assms(2))
  with Cons.IH [OF rest] xy ys show ?case by simp
qed

text \<open>
  C7. The shown list depends on the verdict and the lender's rating only. Under
  \<open>all\<close> it is the whole list; under \<open>eligible\<close> it is exactly the entries whose
  verdict is eligible; under \<open>top_rated\<close> an entry is kept or dropped by its rating
  alone (kept from 4.0 up). Two entries with the same verdict and rating are treated
  alike by every filter, and two lists that agree entry by entry on verdict and rating
  are cut down the same way.
\<close>

theorem filter_by_status_and_rating:
  "filteredRecommendations (setSelectedFilter All s) = recommendations s
   \<and> filteredRecommendations (setSelectedFilter EligibleFilter s)
       = filter (\<lambda>r. eligibilityStatus r = Eligible) (recommendations s)
   \<and> set (filteredRecommendations (setSelectedFilter EligibleFilter s))
       = {r \<in> set (recommendations s). eligibilityStatus r = Eligible}
   \<and> filteredRecommendations (setSelectedFilter TopRated s)
       = filter (\<lambda>r. 4 \<le> rating (lender r)) (recommendations s)
   \<and> (rating (lender r1) = rating (lender r2) \<longrightarrow>
        filter_keeps TopRated r1 = filter_keeps TopRated r2)
   \<and> (eligibilityStatus r1 = eligibilityStatus r2 \<and> rating (lender r1) = rating (lender r2) \<longrightarrow>
        filter_keeps f r1 = filter_keeps f r2)
   \<and> (map (\<lambda>r. (eligibilityStatus r, rating (lender r))) (recommendations s1)
         = map (\<lambda>r. (eligibilityStatus r, rating (lender r))) (recommendations s2) \<longrightarrow>
        map (\<lambda>r. (eligibilityStatus r, rating (lender r)))
            (filteredRecommendations (setSelectedFilter f s1))
          = map (\<lambda>r. (eligibilityStatus r, rating (lender r)))
            (filteredRecommendations (setSelectedFilter f s2)))"
proof (intro conjI impI)
  show "filteredRecommendations (setSelectedFilter All s) = recommendations s"
    by (simp add: filtered_setSelectedFilter)
  have "filter_keeps EligibleFilter = (\<lambda>r. eligibilityStatus r = Eligible)"
    by (rule ext) simp
  then show el: "filteredRecommendations (setSelectedFilter EligibleFilter s)
                   = filter (\<lambda>r. eligibilityStatus r = Eligible) (recommendations s)"
    by (simp add: filtered_setSelectedFilter)
  show "set (filteredRecommendations (setSelectedFilter EligibleFilter s))
          = {r \<in> set (recommendations s). eligibilityStatus r = Eligible}"
    unfolding el by simp
  have "filter_keeps TopRated = (\<lambda>r. 4 \<le> rating (lender r))"
    by (rule ext) simp
  then show "filteredRecommendations (setSelectedFilter TopRated s)
               = filter (\<lambda>r. 4 \<le> rating (lender r)) (recommendations s)"
    by (simp add: filtered_setSelectedFilter)
  show "filter_keeps TopRated r1 = filter_keeps TopRated r2"
    if "rating (lender r1) = rating (lender r2)"
    using that by simp
  show "filter_keeps f r1 = filter_keeps f r2"
    if "eligibilityStatus r1 = eligibilityStatus r2 \<and> rating (lender r1) = rating (lender r2)"
    using that by (intro filter_keeps_cong) simp_all
  show "map (\<lambda>r. (eligibilityStatus r, rating (lender r)))
            (filteredRecommendations (setSelectedFilter f s1))
          = map (\<lambda>r. (eligibilityStatus r, rating (lender r)))
            (filteredRecommendations (setSelectedFilter f s2))"
    if same: "map (\<lambda>r. (eligibilityStatus r, rating (lender r))) (recommendations s1)
          = map (\<lambda>r. (eligibilityStatus r, rating (lender r))) (recommendations s2)"
    unfolding filtered_setSelectedFilter
  proof (rule filter_agrees [OF same])
    fix x y :: LoanRecommendation
    assume "(eligibilityStatus x, rating (lender x)) = (eligibilityStatus y, rating (lender y))"
    then show "filter_keeps f x = filter_keeps f y"
      by (intro filter_keeps_cong) simp_all
  qed
qed

theorem filter_by_status_and_rating_witness:
  "map (\<lambda>r. lender_id (lender r))
     (filteredRecommendations (setSelectedFilter EligibleFilter
        (useEffect_body (Some example1_application) initial_state)))
     = [''1'', ''2'', ''3'']
   \<and> filter_keeps TopRated (mockRecommendations ! 2)
       = filter_keeps TopRated ((mockRecommendations ! 2)\<lparr>matchScore := 0, reasons := []\<rparr>)
   \<and> filter_keeps TopRated (mockRecommendations ! 2)"
proof -
  have same: "rating (lender (mockRecommendations ! 2))
               = rating (lender ((mockRecommendations ! 2)\<lparr>matchScore := 0, reasons := []\<rparr>))"
    by simp
  have "filteredRecommendations (setSelectedFilter EligibleFilter
          (useEffect_body (Some example1_application) initial_state))
        = filter (\<lambda>r. eligibilityStatus r = Eligible) mockRecommendations"
    using filter_by_status_and_rating
      [of "useEffect_body (Some example1_application) initial_state"] by simp
  then have ids: "map (\<lambda>r. lender_id (lender r))
     (filteredRecommendations (setSelectedFilter EligibleFilter
        (useEffect_body (Some example1_application) initial_state)))
     = [''1'', ''2'', ''3'']"
    by (simp add: mockRecommendations_def)
  have "filter_keeps TopRated (mockRecommendations ! 2)
       = filter_keeps TopRated ((mockRecommendations ! 2)\<lparr>matchScore := 0, reasons := []\<rparr>)"
    using same filter_by_status_and_rating
      [of initial_state "mockRecommendations ! 2"
          "(mockRecommendations ! 2)\<lparr>matchScore := 0, reasons := []\<rparr>"]
    by blast
  moreover have "filter_keeps TopRated (mockRecommendations ! 2)"
    by (simp add: mockRecommendations_def)
  ultimately show ?thesis using ids by simp
qed

section \<open>The apply button\<close>

lemma handleApplyToLender_changes: "handleApplyToLender lenderId s \<noteq> s"
proof
  assume "handleApplyToLender lenderId s = s"
  then have "toasts (handleApplyToLender lenderId s) = toasts s" by simp
  then show False by (simp add: handleApplyToLender_def)
qed

text \<open>
  C10. The apply button of a card is disabled exactly when the recommendation is not
  eligible: the cards of eligible and partially eligible recommendations have it
  enabled, a click on it then runs the handler, and a click changes nothing exactly
  for the not eligible ones. This holds for every card of the rendered page.
\<close>

theorem apply_disabled_iff_not_eligible:
  "apply_disabled r = (eligibilityStatus r = NotEligible)
   \<and> card_apply_disabled (render_card r) = (eligibilityStatus r = NotEligible)
   \<and> (eligibilityStatus r = Eligible \<or> eligibilityStatus r = PartiallyEligible
        \<longrightarrow> \<not> apply_disabled r
            \<and> click_apply r s = handleApplyToLender (lender_id (lender r)) s)
   \<and> (click_apply r s = s) = (eligibilityStatus r = NotEligible)
   \<and> (render s = Page cards shown_empty \<longrightarrow>
        map card_apply_disabled cards
          = map (\<lambda>r. eligibilityStatus r = NotEligible) (filteredRecommendations s))"
proof -
  have a: "apply_disabled r = (eligibilityStatus r = NotEligible)"
    by (simp add: apply_disabled_def)
  have b: "card_apply_disabled (render_card r) = (eligibilityStatus r = NotEligible)"
    by (simp add: render_card_def a)
  have c: "eligibilityStatus r = Eligible \<or> eligibilityStatus r = PartiallyEligible
        \<longrightarrow> \<not> apply_disabled r
            \<and> click_apply r s = handleApplyToLender (lender_id (lender r)) s"
    by (auto simp: a click_apply_def)
  have d: "(click_apply r s = s) = (eligibilityStatus r = NotEligible)"
    by (simp add: click_apply_def a handleApplyToLender_changes)
  have e: "map card_apply_disabled cards
          = map (\<lambda>r. eligibilityStatus r = NotEligible) (filteredRecommendations s)"
    if "render s = Page cards shown_empty"
  proof -
    from that have "cards = map render_card (filteredRecommendations s)"
      by (simp add: render_def split: if_splits)
    then show ?thesis by (simp add: render_card_def apply_disabled_def)
  qed
  from a b c d e show ?thesis by blast
qed

theorem apply_disabled_iff_not_eligible_witness:
  "render (useEffect_body (Some example1_application) initial_state)
     = Page (map render_card mockRecommendations) False
   \<and> map card_apply_disabled (map render_card mockRecommendations)
       = [False, False, False, False]
   \<and> click_apply (mockRecommendations ! 3) initial_state
       = handleApplyToLender ''4'' initial_state
   \<and> click_apply ((mockRecommendations ! 3)\<lparr>eligibilityStatus := NotEligible\<rparr>) initial_state
       = initial_state"
proof -
  let ?s = "useEffect_body (Some example1_application) initial_state"
  have shown: "filteredRecommendations ?s = mockRecommendations"
    by (simp add: filteredRecommendations_def useEffect_body_def fetchRecommendations_eq
        initial_state_def)
  have page: "render ?s = Page (map render_card mockRecommendations) False"
    by (simp add: render_def shown) (simp add: useEffect_body_def fetchRecommendations_eq)
  have "map card_apply_disabled (map render_card mockRecommendations)
          = map (\<lambda>r. eligibilityStatus r = NotEligible) (filteredRecommendations ?s)"
    using page apply_disabled_iff_not_eligible
      [of "mockRecommendations ! 0" ?s "map render_card mockRecommendations" False] by blast
  then have buttons: "map card_apply_disabled (map render_card mockRecommendations)
       = [False, False, False, False]"
    by (simp add: shown) (simp add: mockRecommendations_def)
  have st: "eligibilityStatus (mockRecommendations ! 3) = PartiallyEligible"
    and lid: "lender_id (lender (mockRecommendations ! 3)) = ''4''"
    by (simp_all add: mockRecommendations_def)
  have enabled: "click_apply (mockRecommendations ! 3) initial_state
       = handleApplyToLender ''4'' initial_state"
    using st lid apply_disabled_iff_not_eligible [of "mockRecommendations ! 3" initial_state]
    by simp
  have "click_apply ((mockRecommendations ! 3)\<lparr>eligibilityStatus := NotEligible\<rparr>) initial_state
       = initial_state"
    using apply_disabled_iff_not_eligible
      [of "(mockRecommendations ! 3)\<lparr>eligibilityStatus := NotEligible\<rparr>" initial_state]
    by simp
  with page buttons enabled show ?thesis by simp
qed

end
